theory Spec2Isabelle
  imports Complex_Main
begin

section \<open>JavaScript strings and the built-ins the server uses\<close>

text \<open>
  A message is a JavaScript string. It is modelled as a \<^typ>\<open>string\<close> whose
  characters stand for the UTF-16 code units below 256 (the Latin-1 range), so every
  built-in below is written out for exactly that range.
\<close>

definition code :: "char \<Rightarrow> nat" where
  "code c = of_char c"

text \<open>\<^verbatim>\<open>\d\<close> of a regular expression without the unicode flag: the ten ASCII digits.\<close>

definition isDigit :: "char \<Rightarrow> bool" where
  "isDigit c \<longleftrightarrow> 48 \<le> code c \<and> code c \<le> 57"

text \<open>
  \<^verbatim>\<open>\s\<close>: tab, line feed, vertical tab, form feed, carriage return, space and the
  no-break space (the white space and line terminators below 256).
\<close>

definition isSpace :: "char \<Rightarrow> bool" where
  "isSpace c \<longleftrightarrow> (9 \<le> code c \<and> code c \<le> 13) \<or> code c = 32 \<or> code c = 160"

text \<open>\<^verbatim>\<open>[+\-*/]\<close>\<close>

definition isOperator :: "char \<Rightarrow> bool" where
  "isOperator c \<longleftrightarrow> c = CHR ''+'' \<or> c = CHR ''-'' \<or> c = CHR ''*'' \<or> c = CHR ''/''"

text \<open>\<^verbatim>\<open>[a-zA-Z\s]\<close>\<close>

definition isLetterOrSpace :: "char \<Rightarrow> bool" where
  "isLetterOrSpace c \<longleftrightarrow>
     (97 \<le> code c \<and> code c \<le> 122) \<or> (65 \<le> code c \<and> code c \<le> 90) \<or> isSpace c"

text \<open>\<^verbatim>\<open>[\d+\-*/().\s]\<close>\<close>

definition isMathChar :: "char \<Rightarrow> bool" where
  "isMathChar c \<longleftrightarrow>
     isDigit c \<or> isOperator c \<or> c = CHR ''('' \<or> c = CHR '')'' \<or> c = CHR ''.'' \<or> isSpace c"

text \<open>
  \<^verbatim>\<open>String.prototype.toLowerCase\<close> on one code unit below 256: \<^verbatim>\<open>A-Z\<close> and the
  Latin-1 capitals (192 to 222 except the multiplication sign 215) move up by 32.
\<close>

definition lowerChar :: "char \<Rightarrow> char" where
  "lowerChar c =
     (if (65 \<le> code c \<and> code c \<le> 90) \<or> (192 \<le> code c \<and> code c \<le> 222 \<and> code c \<noteq> 215)
      then char_of (code c + 32) else c)"

definition toLowerCase :: "string \<Rightarrow> string" where
  "toLowerCase s = map lowerChar s"

fun startsWith :: "string \<Rightarrow> string \<Rightarrow> bool" where
  "startsWith s [] = True"
| "startsWith [] (k # ks) = False"
| "startsWith (x # xs) (k # ks) = (x = k \<and> startsWith xs ks)"

text \<open>\<^verbatim>\<open>String.prototype.includes\<close> (named \<open>includesStr\<close> here): the needle starts at some position.\<close>

fun includesStr :: "string \<Rightarrow> string \<Rightarrow> bool" where
  "includesStr [] k = (k = [])"
| "includesStr (x # xs) k = (startsWith (x # xs) k \<or> includesStr xs k)"

text \<open>\<^verbatim>\<open>String.prototype.trim\<close>\<close>

definition trim :: "string \<Rightarrow> string" where
  "trim s = rev (dropWhile isSpace (rev (dropWhile isSpace s)))"

subsection \<open>The regular expressions of the server\<close>

text \<open>
  The three patterns matched by \<^verbatim>\<open>String.prototype.match\<close> are sequences of
  character classes, each taken once, or greedily zero or more times (\<^verbatim>\<open>*\<close>), or
  greedily one or more times (\<^verbatim>\<open>+\<close>).
\<close>

datatype atom = One "char \<Rightarrow> bool" | Star "char \<Rightarrow> bool" | Plus "char \<Rightarrow> bool"

text \<open>
  The backtracking matcher at one start position. It returns the text consumed by each
  atom, in order. A greedy atom first tries to take one more character and gives it back
  when the rest of the pattern then fails.
\<close>

fun matchHere :: "atom list \<Rightarrow> string \<Rightarrow> string list option" where
  "matchHere [] s = Some []"
| "matchHere (One p # r) [] = None"
| "matchHere (One p # r) (x # xs) =
     (if p x then map_option (\<lambda>ms. [x] # ms) (matchHere r xs) else None)"
| "matchHere (Star p # r) [] = map_option (\<lambda>ms. [] # ms) (matchHere r [])"
| "matchHere (Star p # r) (x # xs) =
     (if p x then
        (case matchHere (Star p # r) xs of
           Some (m # ms) \<Rightarrow> Some ((x # m) # ms)
         | _ \<Rightarrow> map_option (\<lambda>ms. [] # ms) (matchHere r (x # xs)))
      else map_option (\<lambda>ms. [] # ms) (matchHere r (x # xs)))"
| "matchHere (Plus p # r) [] = None"
| "matchHere (Plus p # r) (x # xs) =
     (if p x then
        (case matchHere (Star p # r) xs of
           Some (m # ms) \<Rightarrow> Some ((x # m) # ms)
         | _ \<Rightarrow> None)
      else None)"

text \<open>
  \<^verbatim>\<open>str.match(re)\<close> for a pattern without the global flag: the match at the leftmost
  start position that has one, \<^verbatim>\<open>null\<close> (here \<open>None\<close>) when no position has.
\<close>

fun match :: "atom list \<Rightarrow> string \<Rightarrow> string list option" where
  "match re [] = matchHere re []"
| "match re (x # xs) =
     (case matchHere re (x # xs) of Some ms \<Rightarrow> Some ms | None \<Rightarrow> match re xs)"

text \<open>\<^verbatim>\<open>/\d+\s*[+\-*/]\s*\d+/\<close>\<close>

definition arithmeticRe :: "atom list" where
  "arithmeticRe = [Plus isDigit, Star isSpace, One isOperator, Star isSpace, Plus isDigit]"

text \<open>\<^verbatim>\<open>/in ([a-zA-Z\s]+)/\<close>; the capture group is the fourth atom.\<close>

definition locationRe :: "atom list" where
  "locationRe =
     [One (\<lambda>c. c = CHR ''i''), One (\<lambda>c. c = CHR ''n''), One (\<lambda>c. c = CHR '' ''),
      Plus isLetterOrSpace]"

text \<open>\<^verbatim>\<open>/[\d+\-*/().\s]+/\<close>\<close>

definition expressionRe :: "atom list" where
  "expressionRe = [Plus isMathChar]"

section \<open>The classifier\<close>

datatype intent = Weather | Time | Math | Knowledge | General

definition routeQuery :: "string \<Rightarrow> intent" where
  "routeQuery query =
     (let lowerQuery = toLowerCase query in
      if includesStr lowerQuery ''weather'' \<or> includesStr lowerQuery ''temperature'' then Weather
      else if includesStr lowerQuery ''time'' \<or> includesStr lowerQuery ''date'' then Time
      else if match arithmeticRe lowerQuery \<noteq> None then Math
      else if includesStr lowerQuery ''who is'' \<or> includesStr lowerQuery ''what is''
              \<or> includesStr lowerQuery ''define'' then Knowledge
      else General)"

section \<open>The external capabilities\<close>

text \<open>
  Every awaited call either rejects (the \<^verbatim>\<open>catch\<close> branch runs) or resolves with the
  fields the code reads. A response of an unusable shape, whose field access throws a
  \<^verbatim>\<open>TypeError\<close> inside the same \<^verbatim>\<open>try\<close>, counts as rejected.
\<close>

datatype 'a outcome = Rejected | Resolved 'a

text \<open>
  \<^verbatim>\<open>geoRes.data.results[0]\<close>; the numbers are carried as the text a template literal
  renders for them.
\<close>

record place =
  latitude :: string
  longitude :: string
  name :: string

text \<open>\<^verbatim>\<open>weatherRes.data.current_weather\<close>\<close>

record current_weather =
  temperature :: string
  windspeed :: string

text \<open>The body of \<^verbatim>\<open>openai.chat.completions.create\<close>.\<close>

datatype request =
  Request (model: string) (messages: "(string \<times> string) list") (max_tokens: nat) (temp: rat)

text \<open>
  A completion either fails with \<^verbatim>\<open>error.status\<close> (absent for an error without one) or
  yields \<^verbatim>\<open>completion.choices[0].message.content\<close>.
\<close>

datatype completion = Failed "nat option" | Content string

text \<open>The document handed to \<^verbatim>\<open>new Chat(...)\<close>.\<close>

datatype chat = Chat (chatUserId: string) (chatMessage: string) (chatResponse: string)

text \<open>
  The world a request runs in: the four HTTP services, \<^verbatim>\<open>eval\<close> (its value as a
  template literal renders it, or a throw), the local clock as \<^verbatim>\<open>toLocaleString\<close>
  prints it, the database connection state, \<^verbatim>\<open>chat.save\<close> (the message of the error
  it throws, if it does) and the language model.
\<close>

record world =
  geocode :: "string \<Rightarrow> place list option outcome"
  forecast :: "string \<Rightarrow> string \<Rightarrow> current_weather option outcome"
  wikipedia :: "string \<Rightarrow> string outcome"
  duckduckgo :: "string \<Rightarrow> (string \<times> string) outcome"
  jsEval :: "string \<Rightarrow> string outcome"
  now :: string
  readyState :: nat
  save :: "chat \<Rightarrow> string option"
  create :: "request \<Rightarrow> completion"

text \<open>What a request does to the outside, in order.\<close>

datatype event =
    GeocodeGet string
  | ForecastGet string string
  | WikipediaGet string
  | DuckDuckGoGet string
  | EvalCall string
  | ClockRead
  | CompletionCreate request
  | ChatSave chat

section \<open>The resolvers\<close>

definition degree :: char where
  "degree = char_of (176 :: nat)"

definition getWeather :: "world \<Rightarrow> string \<Rightarrow> string \<times> event list" where
  "getWeather w location =
     (case geocode w location of
        Rejected \<Rightarrow> (''Unable to fetch weather at the moment.'', [GeocodeGet location])
      | Resolved results \<Rightarrow>
          (case results of
             Some (p # ps) \<Rightarrow>
               (case forecast w (latitude p) (longitude p) of
                  Resolved (Some weather) \<Rightarrow>
                    (''The weather in '' @ name p @ '' is '' @ temperature weather @ [degree]
                       @ ''C with wind speed '' @ windspeed weather @ '' km/h.'',
                     [GeocodeGet location, ForecastGet (latitude p) (longitude p)])
                | _ \<Rightarrow>
                    (''Unable to fetch weather at the moment.'',
                     [GeocodeGet location, ForecastGet (latitude p) (longitude p)]))
           | _ \<Rightarrow> (''Weather location not found.'', [GeocodeGet location])))"

definition searchWikipedia :: "world \<Rightarrow> string \<Rightarrow> string \<times> event list" where
  "searchWikipedia w query =
     (case wikipedia w query of
        Rejected \<Rightarrow> (''Unable to find information.'', [WikipediaGet query])
      | Resolved extract \<Rightarrow>
          (if extract \<noteq> [] then extract else ''No information found.'', [WikipediaGet query]))"

definition searchDuckDuckGo :: "world \<Rightarrow> string \<Rightarrow> string \<times> event list" where
  "searchDuckDuckGo w query =
     (case duckduckgo w query of
        Rejected \<Rightarrow> (''Search unavailable.'', [DuckDuckGoGet query])
      | Resolved (abstractText, answer) \<Rightarrow>
          (if abstractText \<noteq> [] then abstractText
           else if answer \<noteq> [] then answer
           else ''No results found.'', [DuckDuckGoGet query]))"

text \<open>\<^verbatim>\<open>message.match(/in ([a-zA-Z\s]+)/)?.[1] || 'London'\<close>\<close>

definition weatherLocation :: "string \<Rightarrow> string" where
  "weatherLocation message =
     (case match locationRe message of
        Some [i, n, sp, g] \<Rightarrow> (if g \<noteq> [] then g else ''London'')
      | _ \<Rightarrow> ''London'')"

text \<open>
  \<^verbatim>\<open>message.match(/[\d+\-*/().\s]+/)[0]\<close>: the whole match, or the \<^verbatim>\<open>TypeError\<close> of
  indexing \<^verbatim>\<open>null\<close> (here \<open>None\<close>).
\<close>

definition mathExpression :: "string \<Rightarrow> string option" where
  "mathExpression message = map_option concat (match expressionRe message)"

definition mathResolver :: "world \<Rightarrow> string \<Rightarrow> string \<times> event list" where
  "mathResolver w message =
     (case mathExpression message of
        None \<Rightarrow> (''Could not calculate that.'', [])
      | Some expression \<Rightarrow>
          (case jsEval w expression of
             Rejected \<Rightarrow> (''Could not calculate that.'', [EvalCall expression])
           | Resolved result \<Rightarrow> (''The answer is: '' @ result, [EvalCall expression])))"

text \<open>
  The ignore-case flag compares canonicalised code units; a pattern character of
  \<^verbatim>\<open>who is|what is|define\<close> is a lower-case ASCII letter or a space, which only itself
  and its ASCII capital canonicalise to.
\<close>

definition canonicalize :: "char \<Rightarrow> char" where
  "canonicalize c = (if 97 \<le> code c \<and> code c \<le> 122 then char_of (code c - 32) else c)"

fun startsWithIgnoreCase :: "string \<Rightarrow> string \<Rightarrow> bool" where
  "startsWithIgnoreCase s [] = True"
| "startsWithIgnoreCase [] (k # ks) = False"
| "startsWithIgnoreCase (x # xs) (k # ks) =
     (canonicalize x = canonicalize k \<and> startsWithIgnoreCase xs ks)"

text \<open>\<^verbatim>\<open>message.replace(/(who is|what is|define)/gi, '')\<close>\<close>

function replacePhrases :: "string \<Rightarrow> string" where
  "replacePhrases [] = []"
| "replacePhrases (x # xs) =
     (if startsWithIgnoreCase (x # xs) ''who is'' then replacePhrases (drop 6 (x # xs))
      else if startsWithIgnoreCase (x # xs) ''what is'' then replacePhrases (drop 7 (x # xs))
      else if startsWithIgnoreCase (x # xs) ''define'' then replacePhrases (drop 6 (x # xs))
      else x # replacePhrases xs)"
  by pat_completeness auto
termination
  by (relation "measure length") auto

definition quote :: char where
  "quote = char_of (34 :: nat)"

definition apostrophe :: char where
  "apostrophe = char_of (39 :: nat)"

definition acknowledgment :: "string \<Rightarrow> string" where
  "acknowledgment message =
     ''I received your message: '' @ [quote] @ message @ [quote] @ ''. I'' @ [apostrophe]
       @ ''m working on understanding more complex queries!''"

text \<open>The \<^verbatim>\<open>switch (queryType)\<close> of the rule-routed chat handler.\<close>

definition dispatch :: "world \<Rightarrow> string \<Rightarrow> string \<times> event list" where
  "dispatch w message =
     (case routeQuery message of
        Weather \<Rightarrow> getWeather w (weatherLocation message)
      | Time \<Rightarrow> (''Current time: '' @ now w, [ClockRead])
      | Math \<Rightarrow> mathResolver w message
      | Knowledge \<Rightarrow> searchWikipedia w (trim (replacePhrases message))
      | General \<Rightarrow>
          (case searchDuckDuckGo w message of
             (response, evs) \<Rightarrow>
               (if response = [] \<or> response = ''No results found.''
                then (acknowledgment message, evs)
                else (response, evs))))"

section \<open>The chat handlers\<close>

record body =
  userId :: "string option"
  message :: "string option"

datatype reply =
    Json200 string "intent option"
  | Json400 string
  | Json500 string string

text \<open>\<^verbatim>\<open>if (mongoose.connection.readyState === 1) { await chat.save() }\<close>, then the reply.\<close>

definition persist ::
  "world \<Rightarrow> chat \<Rightarrow> reply \<Rightarrow> event list \<Rightarrow> reply \<times> event list" where
  "persist w c ok evs =
     (if readyState w = 1 then
        (case save w c of
           Some err \<Rightarrow> (Json500 ''Server error'' err, evs @ [ChatSave c])
         | None \<Rightarrow> (ok, evs @ [ChatSave c]))
      else (ok, evs))"

definition userOf :: "body \<Rightarrow> string" where
  "userOf b = (case userId b of None \<Rightarrow> ''anonymous'' | Some u \<Rightarrow> u)"

text \<open>The rule-routed \<^verbatim>\<open>POST /api/chat\<close>.\<close>

definition chatHandler :: "world \<Rightarrow> body \<Rightarrow> reply \<times> event list" where
  "chatHandler w b =
     (case message b of
        None \<Rightarrow> (Json400 ''Message is required'', [])
      | Some m \<Rightarrow>
          if m = [] then (Json400 ''Message is required'', [])
          else
            (case dispatch w m of
               (response, evs) \<Rightarrow>
                 persist w (Chat (userOf b) m response)
                   (Json200 response (Some (routeQuery m))) evs))"

section \<open>The model-augmented variant\<close>

definition chatSystemPrompt :: string where
  "chatSystemPrompt =
     ''You are a helpful AI assistant. Provide accurate, concise, and friendly responses. If asked about current events or real-time information, indicate that you may not have the latest data.''"

definition searchSystemPrompt :: string where
  "searchSystemPrompt =
     ''You are a helpful search assistant. Synthesize the provided search results into a clear, concise answer.''"

definition newline :: char where
  "newline = char_of (10 :: nat)"

definition chatRequest :: "string \<Rightarrow> request" where
  "chatRequest msg =
     Request ''gpt-4o-mini'' [(''system'', chatSystemPrompt), (''user'', msg)] 500 (7 / 10)"

definition synthesisRequest :: "string \<Rightarrow> string \<Rightarrow> request" where
  "synthesisRequest query searchResults =
     Request ''gpt-4o-mini''
       [(''system'', searchSystemPrompt),
        (''user'', ''User query: '' @ query @ [newline, newline] @ ''Search results: ''
           @ searchResults @ [newline, newline]
           @ ''Provide a clear answer based on these results.'')]
       300 (1 / 2)"

definition chatWithOpenAI :: "world \<Rightarrow> string \<Rightarrow> string \<times> event list" where
  "chatWithOpenAI w msg =
     (case create w (chatRequest msg) of
        Content c \<Rightarrow> (c, [CompletionCreate (chatRequest msg)])
      | Failed status \<Rightarrow>
          (if status = Some 401
           then ''OpenAI API key is not configured. Please add OPENAI_API_KEY to environment variables.''
           else ''I encountered an error processing your request. Please try again.'',
           [CompletionCreate (chatRequest msg)]))"

definition searchWithOpenAI :: "world \<Rightarrow> string \<Rightarrow> string \<times> event list" where
  "searchWithOpenAI w query =
     (case searchDuckDuckGo w query of
        (searchResults, evs) \<Rightarrow>
          if searchResults = [] \<or> searchResults = ''No results found.''
             \<or> searchResults = ''Search unavailable.''
          then (case chatWithOpenAI w query of (r, evs') \<Rightarrow> (r, evs @ evs'))
          else
            (case create w (synthesisRequest query searchResults) of
               Content c \<Rightarrow> (c, evs @ [CompletionCreate (synthesisRequest query searchResults)])
             | Failed status \<Rightarrow>
                 (case chatWithOpenAI w query of
                    (r, evs') \<Rightarrow>
                      (r, evs @ [CompletionCreate (synthesisRequest query searchResults)] @ evs'))))"

text \<open>The model-augmented \<^verbatim>\<open>POST /api/chat\<close>.\<close>

definition chatHandlerOpenAI :: "world \<Rightarrow> body \<Rightarrow> reply \<times> event list" where
  "chatHandlerOpenAI w b =
     (case message b of
        None \<Rightarrow> (Json400 ''Message is required'', [])
      | Some m \<Rightarrow>
          if m = [] then (Json400 ''Message is required'', [])
          else
            (case chatWithOpenAI w m of
               (response, evs) \<Rightarrow>
                 persist w (Chat (userOf b) m response) (Json200 response None) evs))"

section \<open>Notions of the specification\<close>

text \<open>
  A text contains a keyword case-insensitively when, at some position, it agrees with the
  keyword character by character up to ASCII case.
\<close>

fun includesIgnoreCase :: "string \<Rightarrow> string \<Rightarrow> bool" where
  "includesIgnoreCase [] k = (k = [])"
| "includesIgnoreCase (x # xs) k = (startsWithIgnoreCase (x # xs) k \<or> includesIgnoreCase xs k)"

definition isLower :: "char \<Rightarrow> bool" where
  "isLower c \<longleftrightarrow> 97 \<le> code c \<and> code c \<le> 122"

text \<open>
  An operand nested in parentheses, as the description of the arithmetic pattern has it:
  a run of digits, or an operand between \<^verbatim>\<open>(\<close> and \<^verbatim>\<open>)\<close>.
\<close>

fun isOperand :: "string \<Rightarrow> bool" where
  "isOperand [] = False"
| "isOperand (x # t) =
     (list_all isDigit (x # t)
      \<or> (x = CHR ''('' \<and> t \<noteq> [] \<and> last t = CHR '')'' \<and> isOperand (butlast t)))"

text \<open>The text that follows the first \<^verbatim>\<open>in \<close> of a message, if there is one.\<close>

fun afterFirstIn :: "string \<Rightarrow> string option" where
  "afterFirstIn [] = None"
| "afterFirstIn (x # xs) =
     (if startsWith (x # xs) ''in '' then Some (drop 3 (x # xs)) else afterFirstIn xs)"

text \<open>
  The longest run of letters and white space after the first \<^verbatim>\<open>in \<close> that a letter or
  a white space follows directly, if there is one.
\<close>

fun locationAfterIn :: "string \<Rightarrow> string option" where
  "locationAfterIn [] = None"
| "locationAfterIn (x # xs) =
     (if startsWith (x # xs) ''in '' \<and> takeWhile isLetterOrSpace (drop 3 (x # xs)) \<noteq> []
      then Some (takeWhile isLetterOrSpace (drop 3 (x # xs)))
      else locationAfterIn xs)"

text \<open>
  A search result the model-augmented variant cannot use: empty, or one of the two texts
  \<^verbatim>\<open>searchDuckDuckGo\<close> returns in place of a result.
\<close>

definition unusable :: "string \<Rightarrow> bool" where
  "unusable r \<longleftrightarrow> r = [] \<or> r = ''No results found.'' \<or> r = ''Search unavailable.''"

text \<open>The resolver each capability call belongs to (none for the model and the database).\<close>

fun resolverOf :: "event \<Rightarrow> intent option" where
  "resolverOf (GeocodeGet l) = Some Weather"
| "resolverOf (ForecastGet la lo) = Some Weather"
| "resolverOf (WikipediaGet q) = Some Knowledge"
| "resolverOf (DuckDuckGoGet q) = Some General"
| "resolverOf (EvalCall e) = Some Math"
| "resolverOf ClockRead = Some Time"
| "resolverOf (CompletionCreate r) = None"
| "resolverOf (ChatSave c) = None"

text \<open>The texts a single resolver, or the terminal fallback, offers for a message.\<close>

definition candidateAnswers :: "world \<Rightarrow> string \<Rightarrow> string list" where
  "candidateAnswers w m =
     [fst (getWeather w (weatherLocation m)),
      ''Current time: '' @ now w,
      fst (mathResolver w m),
      fst (searchWikipedia w (trim (replacePhrases m))),
      fst (searchDuckDuckGo w m),
      acknowledgment m]"

subsection \<open>Sample worlds\<close>

text \<open>Every service is down, the database is not connected.\<close>

definition offline :: world where
  "offline =
     \<lparr>geocode = (\<lambda>l. Rejected), forecast = (\<lambda>la lo. Rejected), wikipedia = (\<lambda>q. Rejected),
      duckduckgo = (\<lambda>q. Rejected), jsEval = (\<lambda>e. Rejected), now = ''1/1/2026, 12:00:00 PM'',
      readyState = 0, save = (\<lambda>c. None), create = (\<lambda>r. Failed None)\<rparr>"

text \<open>The geocoder knows London and Paris only; the forecast answers for every place.\<close>

definition gazetteer :: "string \<Rightarrow> place list option outcome" where
  "gazetteer l =
     (if l = ''London''
      then Resolved (Some [\<lparr>latitude = ''51.50853'', longitude = ''-0.12574'', name = ''London''\<rparr>])
      else if l = ''Paris''
      then Resolved (Some [\<lparr>latitude = ''48.85341'', longitude = ''2.3488'', name = ''Paris''\<rparr>])
      else Resolved None)"

definition online :: world where
  "online =
     offline\<lparr>geocode := gazetteer,
       forecast := (\<lambda>la lo. Resolved (Some \<lparr>temperature = ''21.4'', windspeed = ''7.9''\<rparr>))\<rparr>"

text \<open>The database is connected and every write to it fails.\<close>

definition failingStore :: world where
  "failingStore = online\<lparr>readyState := 1, save := (\<lambda>c. Some ''write failed'')\<rparr>"

text \<open>The search finds nothing and the model completes with an empty text.\<close>

definition silentModel :: world where
  "silentModel = offline\<lparr>duckduckgo := (\<lambda>q. Resolved ([], [])), create := (\<lambda>r. Content [])\<rparr>"

text \<open>The search fails and the model answers.\<close>

definition talkingModel :: world where
  "talkingModel = offline\<lparr>create := (\<lambda>r. Content ''Hello!'')\<rparr>"

text \<open>The search finds an abstract, the synthesis over it fails, the direct completion answers.\<close>

definition flakySynthesis :: world where
  "flakySynthesis =
     offline\<lparr>duckduckgo := (\<lambda>q. Resolved (''An abstract.'', [])),
       create := (\<lambda>r. if max_tokens r = 300 then Failed (Some 500) else Content ''Hello!'')\<rparr>"

section \<open>Characters\<close>

lemma code_inject: "code a = code b \<Longrightarrow> a = b"
  by (simp add: code_def)

lemma code_less: "code c < 256"
  by (simp add: code_def)

lemma code_char_of: "n < 256 \<Longrightarrow> code (char_of n) = n"
  by (simp add: code_def)

lemma code_char_of_minus: "code (char_of (code x - 32)) = code x - 32"
proof (rule code_char_of)
  show "code x - 32 < 256" using code_less[of x] by arith
qed

lemma code_literals:
  "code CHR ''+'' = 43" "code CHR ''-'' = 45" "code CHR ''*'' = 42" "code CHR ''/'' = 47"
  by (simp_all add: code_def)

lemma lowerChar_digit: "isDigit c \<Longrightarrow> lowerChar c = c"
  by (simp add: isDigit_def lowerChar_def)

lemma lowerChar_space: "isSpace c \<Longrightarrow> lowerChar c = c"
  by (auto simp add: isSpace_def lowerChar_def)

lemma lowerChar_operator: "isOperator c \<Longrightarrow> lowerChar c = c"
  by (auto simp add: isOperator_def lowerChar_def code_literals)

text \<open>
  For a lower-case ASCII letter \<open>k\<close>, lower-casing a character gives \<open>k\<close> exactly when
  the character is \<open>k\<close> up to ASCII case.
\<close>

lemma lower_of_canon:
  assumes "isLower k" "canonicalize x = canonicalize k"
  shows "lowerChar x = k"
proof -
  have k: "97 \<le> code k" "code k \<le> 122" using assms(1) by (simp_all add: isLower_def)
  have ck: "canonicalize k = char_of (code k - 32)" using k by (simp add: canonicalize_def)
  have cck: "code (canonicalize k) = code k - 32" by (simp add: ck code_char_of_minus)
  show ?thesis
  proof (cases "97 \<le> code x \<and> code x \<le> 122")
    case True
    then have "code (canonicalize x) = code x - 32"
      by (simp add: canonicalize_def code_char_of_minus)
    with cck assms(2) True k have "code x = code k" by simp
    then have "x = k" by (rule code_inject)
    then show ?thesis using k by (simp add: lowerChar_def)
  next
    case False
    then have "canonicalize x = x" by (auto simp add: canonicalize_def)
    with assms(2) cck have cx: "code x = code k - 32" by simp
    have "65 \<le> code x \<and> code x \<le> 90" using cx k by arith
    then have "lowerChar x = char_of (code x + 32)" by (simp add: lowerChar_def)
    also have "\<dots> = char_of (code k)" using cx k by simp
    also have "\<dots> = k" by (simp add: code_def)
    finally show ?thesis .
  qed
qed

lemma canon_of_lower:
  assumes "isLower k" "lowerChar x = k"
  shows "canonicalize x = canonicalize k"
proof -
  have k: "97 \<le> code k" "code k \<le> 122" using assms(1) by (simp_all add: isLower_def)
  show ?thesis
  proof (cases "(65 \<le> code x \<and> code x \<le> 90) \<or> (192 \<le> code x \<and> code x \<le> 222 \<and> code x \<noteq> 215)")
    case True
    then have lx: "lowerChar x = char_of (code x + 32)" by (simp add: lowerChar_def)
    from True code_less[of x] have "code (lowerChar x) = code x + 32"
      unfolding lx by (intro code_char_of) auto
    with assms(2) have e: "code k = code x + 32" by simp
    with k have r: "65 \<le> code x \<and> code x \<le> 90" by simp
    then have "canonicalize x = x" by (simp add: canonicalize_def)
    moreover have "canonicalize k = char_of (code x)" using k e by (simp add: canonicalize_def)
    ultimately show ?thesis by (simp add: code_def)
  next
    case False
    then have "lowerChar x = x" by (auto simp add: lowerChar_def)
    with assms(2) show ?thesis by simp
  qed
qed

section \<open>The math resolver on the example of the specification\<close>

text \<open>
  C1. On \<^verbatim>\<open>What is 2 + 2?\<close>, which is classified as math, the expression pattern
  matches first at the blank after \<^verbatim>\<open>What\<close>: the text handed to \<^verbatim>\<open>eval\<close> is that
  single blank and not \<^verbatim>\<open>2 + 2\<close>, so the reply is whatever \<^verbatim>\<open>eval\<close> makes of a
  blank, the same for every message that starts with a word and a blank.
\<close>

theorem math_example_extracts_blank:
  "routeQuery ''What is 2 + 2?'' = Math
   \<and> mathExpression ''What is 2 + 2?'' = Some '' ''
   \<and> mathResolver w ''What is 2 + 2?'' =
       (case jsEval w '' '' of
          Rejected \<Rightarrow> (''Could not calculate that.'', [EvalCall '' ''])
        | Resolved result \<Rightarrow> (''The answer is: '' @ result, [EvalCall '' '']))
   \<and> mathResolver w ''What is 2 + 2?'' = mathResolver w ''What is 3 + 5?''"
proof -
  have a: "routeQuery ''What is 2 + 2?'' = Math" by code_simp
  have b: "mathExpression ''What is 2 + 2?'' = Some '' ''" by code_simp
  have c: "mathExpression ''What is 3 + 5?'' = Some '' ''" by code_simp
  show ?thesis by (simp add: a b c mathResolver_def)
qed

text \<open>An \<^verbatim>\<open>eval\<close> that throws is caught: the reply is the sentinel.\<close>

lemma math_sentinel_on_throw:
  "mathExpression m = Some e \<Longrightarrow> jsEval w e = Rejected
   \<Longrightarrow> mathResolver w m = (''Could not calculate that.'', [EvalCall e])"
  by (simp add: mathResolver_def)

section \<open>Validation of the message\<close>

text \<open>
  C7. In both variants of the chat handler, a request whose message is absent or empty is
  answered with status 400 and the error \<^verbatim>\<open>Message is required\<close>, and nothing has been
  done to the outside by then: no capability was called and nothing was saved.
\<close>

theorem missing_message_rejected:
  "chatHandler w (b\<lparr>message := None\<rparr>) = (Json400 ''Message is required'', [])
   \<and> chatHandler w (b\<lparr>message := Some []\<rparr>) = (Json400 ''Message is required'', [])
   \<and> chatHandlerOpenAI w (b\<lparr>message := None\<rparr>) = (Json400 ''Message is required'', [])
   \<and> chatHandlerOpenAI w (b\<lparr>message := Some []\<rparr>) = (Json400 ''Message is required'', [])"
  by (simp add: chatHandler_def chatHandlerOpenAI_def)

section \<open>The matcher\<close>

lemma matchHere_length: "matchHere re s = Some ms \<Longrightarrow> length ms = length re"
  by (induction re s arbitrary: ms rule: matchHere.induct)
     (auto split: if_splits option.splits list.splits)

lemma matchHere_Star_step:
  assumes "p x" "matchHere (Star p # r) xs \<noteq> None"
  shows "matchHere (Star p # r) (x # xs) \<noteq> None"
proof -
  from assms(2) obtain ms where ms: "matchHere (Star p # r) xs = Some ms" by auto
  then have "length ms = Suc (length r)" by (auto dest: matchHere_length)
  then obtain m ms' where "ms = m # ms'" by (cases ms) auto
  with ms assms(1) show ?thesis by simp
qed

lemma matchHere_Star_skip:
  assumes "matchHere r s \<noteq> None"
  shows "matchHere (Star p # r) s \<noteq> None"
proof (cases s)
  case Nil
  with assms show ?thesis by auto
next
  case (Cons x xs)
  with assms show ?thesis by (auto split: option.splits list.splits)
qed

lemma matchHere_Star_run:
  assumes "list_all p m" "matchHere r s \<noteq> None"
  shows "matchHere (Star p # r) (m @ s) \<noteq> None"
  using assms
proof (induction m)
  case Nil
  then show ?case by (simp add: matchHere_Star_skip)
next
  case (Cons y m)
  then have "p y" "matchHere (Star p # r) (m @ s) \<noteq> None" by simp_all
  then show ?case unfolding append_Cons by (rule matchHere_Star_step)
qed

lemma matchHere_Plus_run:
  assumes "m \<noteq> []" "list_all p m" "matchHere r s \<noteq> None"
  shows "matchHere (Plus p # r) (m @ s) \<noteq> None"
proof -
  from assms(1) obtain y m' where m: "m = y # m'" by (cases m) auto
  with assms have y: "p y" and "matchHere (Star p # r) (m' @ s) \<noteq> None"
    by (simp_all add: matchHere_Star_run)
  then obtain ms where ms: "matchHere (Star p # r) (m' @ s) = Some ms" by auto
  then have "length ms = Suc (length r)" by (auto dest: matchHere_length)
  then obtain a ms' where "ms = a # ms'" by (cases ms) auto
  with ms y m show ?thesis by simp
qed

lemma match_found: "matchHere re s \<noteq> None \<Longrightarrow> match re (pre @ s) \<noteq> None"
proof (induction pre)
  case Nil
  then show ?case by (cases s) auto
next
  case (Cons x pre)
  then show ?case by (auto split: option.splits)
qed

lemma arithmetic_matchHere:
  assumes "d1 \<noteq> []" "list_all isDigit d1" "list_all isSpace s1" "isOperator op"
    "list_all isSpace s2" "d2 \<noteq> []" "list_all isDigit d2"
  shows "matchHere arithmeticRe (d1 @ s1 @ [op] @ s2 @ d2 @ post) \<noteq> None"
proof -
  have e: "matchHere [] post \<noteq> None" by simp
  have "matchHere [Plus isDigit] (d2 @ post) \<noteq> None"
    using assms(6,7) e by (rule matchHere_Plus_run)
  then have "matchHere [Star isSpace, Plus isDigit] (s2 @ d2 @ post) \<noteq> None"
    using assms(5) by (intro matchHere_Star_run)
  then have "matchHere [One isOperator, Star isSpace, Plus isDigit] ([op] @ s2 @ d2 @ post) \<noteq> None"
    using assms(4) by auto
  then have "matchHere [Star isSpace, One isOperator, Star isSpace, Plus isDigit]
      (s1 @ [op] @ s2 @ d2 @ post) \<noteq> None"
    using assms(3) by (intro matchHere_Star_run)
  then show ?thesis
    unfolding arithmeticRe_def using assms(1,2) by (intro matchHere_Plus_run)
qed

lemma matchHere_Star_only: "matchHere [Star p] s = Some [takeWhile p s]"
  by (induction s) auto

lemma matchHere_Plus_only:
  "matchHere [Plus p] s = (if takeWhile p s \<noteq> [] then Some [takeWhile p s] else None)"
  by (cases s) (auto simp add: matchHere_Star_only)

lemma matchHere_locationRe:
  "matchHere locationRe s =
     (if startsWith s ''in '' \<and> takeWhile isLetterOrSpace (drop 3 s) \<noteq> []
      then Some [''i'', ''n'', '' '', takeWhile isLetterOrSpace (drop 3 s)] else None)"
proof (cases s)
  case Nil
  then show ?thesis by (simp add: locationRe_def)
next
  case s1: (Cons a s')
  show ?thesis
  proof (cases s')
    case Nil
    with s1 show ?thesis by (simp add: locationRe_def)
  next
    case s2: (Cons b s'')
    show ?thesis
    proof (cases s'')
      case Nil
      with s1 s2 show ?thesis by (simp add: locationRe_def)
    next
      case (Cons c t)
      with s1 s2 show ?thesis by (simp add: locationRe_def matchHere_Plus_only)
    qed
  qed
qed

lemma weatherLocation_scan:
  "weatherLocation m = (case locationAfterIn m of Some run \<Rightarrow> run | None \<Rightarrow> ''London'')"
proof -
  have "match locationRe m =
      map_option (\<lambda>run. [''i'', ''n'', '' '', run]) (locationAfterIn m)"
  proof (induction m)
    case Nil
    then show ?case by (simp add: matchHere_locationRe)
  next
    case (Cons x xs)
    then show ?case by (simp add: matchHere_locationRe del: startsWith.simps)
  qed
  moreover have "locationAfterIn m \<noteq> Some []"
    by (induction m) auto
  ultimately show ?thesis
    by (cases "locationAfterIn m") (simp_all add: weatherLocation_def)
qed


section \<open>The classifier\<close>

lemma startsWith_toLowerCase:
  "list_all isLower k \<Longrightarrow> startsWith (toLowerCase s) k = startsWithIgnoreCase s k"
proof (induction s k rule: startsWithIgnoreCase.induct)
  case (1 s)
  then show ?case by simp
next
  case (2 k ks)
  then show ?case by (simp add: toLowerCase_def)
next
  case (3 x xs k ks)
  then have k: "isLower k" and ks: "list_all isLower ks" by simp_all
  have "(lowerChar x = k) = (canonicalize x = canonicalize k)"
    using k lower_of_canon canon_of_lower by blast
  with 3 ks show ?case by (simp add: toLowerCase_def)
qed

lemma includesStr_toLowerCase:
  "list_all isLower k \<Longrightarrow> includesStr (toLowerCase s) k = includesIgnoreCase s k"
proof (induction s)
  case Nil
  then show ?case by (simp add: toLowerCase_def)
next
  case (Cons x xs)
  have "startsWith (toLowerCase (x # xs)) k = startsWithIgnoreCase (x # xs) k"
    using Cons.prems by (rule startsWith_toLowerCase)
  moreover have "toLowerCase (x # xs) = lowerChar x # toLowerCase xs"
    by (simp add: toLowerCase_def)
  ultimately show ?case using Cons by simp
qed

lemma keyword_includes:
  "includesStr (toLowerCase q) ''weather'' = includesIgnoreCase q ''weather''"
  "includesStr (toLowerCase q) ''temperature'' = includesIgnoreCase q ''temperature''"
  "includesStr (toLowerCase q) ''time'' = includesIgnoreCase q ''time''"
  "includesStr (toLowerCase q) ''date'' = includesIgnoreCase q ''date''"
  by (rule includesStr_toLowerCase, simp add: isLower_def code_def)+

text \<open>
  C5. Every text that contains \<^verbatim>\<open>weather\<close> or \<^verbatim>\<open>temperature\<close>, in any mix of upper
  and lower case, is classified as weather, whatever else it contains.
\<close>

theorem weather_wins:
  assumes "includesIgnoreCase q ''weather'' \<or> includesIgnoreCase q ''temperature''"
  shows "routeQuery q = Weather"
proof -
  have "includesStr (toLowerCase q) ''weather'' \<or> includesStr (toLowerCase q) ''temperature''"
    using assms by (simp only: keyword_includes)
  then show ?thesis
    unfolding routeQuery_def Let_def by (rule if_P)
qed

theorem weather_wins_witness:
  "includesIgnoreCase ''What is the WEATHER at 2 + 2 time?'' ''weather''
   \<and> routeQuery ''What is the WEATHER at 2 + 2 time?'' = Weather"
proof -
  have h: "includesIgnoreCase ''What is the WEATHER at 2 + 2 time?'' ''weather''" by code_simp
  then have "routeQuery ''What is the WEATHER at 2 + 2 time?'' = Weather"
    by (intro weather_wins disjI1)
  with h show ?thesis by (rule conjI)
qed

lemma toLowerCase_fixed:
  "list_all (\<lambda>c. isDigit c \<or> isSpace c \<or> isOperator c) s \<Longrightarrow> toLowerCase s = s"
  by (induction s) (auto simp add: toLowerCase_def lowerChar_digit lowerChar_space lowerChar_operator)

lemma toLowerCase_append: "toLowerCase (a @ b) = toLowerCase a @ toLowerCase b"
  by (simp add: toLowerCase_def)

text \<open>
  C6, as the claim states it, fails where the pattern is read with nesting via
  parentheses: the pattern of the classifier has no parentheses, so a text whose operands
  are parenthesised, such as \<^verbatim>\<open>(2)+(3)\<close> or \<^verbatim>\<open>2*(3)\<close>, contains no keyword and is still
  classified as general.
\<close>

theorem parenthesised_operands_counterexample:
  "isOperand ''(2)'' \<and> isOperator CHR ''+'' \<and> isOperand ''(3)''
   \<and> \<not> includesIgnoreCase ''(2)+(3)'' ''weather''
   \<and> \<not> includesIgnoreCase ''(2)+(3)'' ''temperature''
   \<and> \<not> includesIgnoreCase ''(2)+(3)'' ''time''
   \<and> \<not> includesIgnoreCase ''(2)+(3)'' ''date''
   \<and> routeQuery ''(2)+(3)'' = General
   \<and> routeQuery ''2*(3)'' = General"
proof -
  have a: "isOperand ''(2)''" "isOperand ''(3)''" by code_simp+
  have b: "isOperator CHR ''+''" by (simp add: isOperator_def)
  have c: "\<not> includesIgnoreCase ''(2)+(3)'' ''weather''"
    "\<not> includesIgnoreCase ''(2)+(3)'' ''temperature''"
    "\<not> includesIgnoreCase ''(2)+(3)'' ''time''"
    "\<not> includesIgnoreCase ''(2)+(3)'' ''date''"
    by code_simp+
  have d: "routeQuery ''(2)+(3)'' = General" by code_simp
  have e: "routeQuery ''2*(3)'' = General" by code_simp
  from a b c d e show ?thesis by blast
qed

text \<open>
  C6, amended. Every text that contains none of the keywords \<^verbatim>\<open>weather\<close>,
  \<^verbatim>\<open>temperature\<close>, \<^verbatim>\<open>time\<close> and \<^verbatim>\<open>date\<close> (in any case) and that has, somewhere, one or
  more digits, optional white space, one of \<^verbatim>\<open>+ - * /\<close>, optional white space and one or
  more digits, is classified as math. Parentheses may stand before and after that stretch,
  not inside it.
\<close>

theorem arithmetic_is_math:
  assumes "\<not> includesIgnoreCase q ''weather''" "\<not> includesIgnoreCase q ''temperature''"
    and "\<not> includesIgnoreCase q ''time''" "\<not> includesIgnoreCase q ''date''"
    and "q = pre @ d1 @ s1 @ [op] @ s2 @ d2 @ post"
    and "d1 \<noteq> []" "list_all isDigit d1" "list_all isSpace s1" "isOperator op"
    and "list_all isSpace s2" "d2 \<noteq> []" "list_all isDigit d2"
  shows "routeQuery q = Math"
proof -
  have "list_all (\<lambda>c. isDigit c \<or> isSpace c \<or> isOperator c) (d1 @ s1 @ [op] @ s2 @ d2)"
    using assms(7,8,9,10,12) by (auto simp add: list_all_iff)
  then have "toLowerCase (d1 @ s1 @ [op] @ s2 @ d2) = d1 @ s1 @ [op] @ s2 @ d2"
    by (rule toLowerCase_fixed)
  moreover have "q = pre @ (d1 @ s1 @ [op] @ s2 @ d2) @ post"
    using assms(5) by simp
  ultimately have "toLowerCase q = toLowerCase pre @ (d1 @ s1 @ [op] @ s2 @ d2) @ toLowerCase post"
    by (simp only: toLowerCase_append)
  then have lq: "toLowerCase q = toLowerCase pre @ (d1 @ s1 @ [op] @ s2 @ d2 @ toLowerCase post)"
    by simp
  have "matchHere arithmeticRe (d1 @ s1 @ [op] @ s2 @ d2 @ toLowerCase post) \<noteq> None"
    using assms(6,7,8,9,10,11,12) by (rule arithmetic_matchHere)
  then have "match arithmeticRe (toLowerCase q) \<noteq> None"
    unfolding lq by (rule match_found)
  then show ?thesis
    using assms(1,2,3,4) by (simp add: routeQuery_def Let_def keyword_includes)
qed

theorem arithmetic_is_math_witness:
  "routeQuery ''What is (12 + 30) * 4?'' = Math"
proof (rule arithmetic_is_math [where pre = "''What is (''" and ?d1.0 = "''12''" and ?s1.0 = "'' ''"
      and op = "CHR ''+''" and ?s2.0 = "'' ''" and ?d2.0 = "''30''" and post = "'') * 4?''"])
  show "\<not> includesIgnoreCase ''What is (12 + 30) * 4?'' ''weather''" by code_simp
  show "\<not> includesIgnoreCase ''What is (12 + 30) * 4?'' ''temperature''" by code_simp
  show "\<not> includesIgnoreCase ''What is (12 + 30) * 4?'' ''time''" by code_simp
  show "\<not> includesIgnoreCase ''What is (12 + 30) * 4?'' ''date''" by code_simp
  show "''What is (12 + 30) * 4?'' = ''What is ('' @ ''12'' @ '' '' @ [CHR ''+''] @ '' '' @ ''30'' @ '') * 4?''"
    by simp
  show "list_all isDigit ''12''" "list_all isDigit ''30''" by (simp_all add: isDigit_def code_def)
  show "list_all isSpace '' ''" "list_all isSpace '' ''" by (simp_all add: isSpace_def code_def)
  show "isOperator CHR ''+''" by (simp add: isOperator_def)
  show "''12'' \<noteq> []" "''30'' \<noteq> []" by simp_all
qed

section \<open>The weather resolver\<close>

text \<open>
  C2, as the claim states it, fails in its last part: a location the geocoder has no
  result for is not replaced by London. With a geocoder that knows London and Paris, the
  message \<^verbatim>\<open>weather in Atlantis\<close> asks for Atlantis only and is answered with
  \<^verbatim>\<open>Weather location not found.\<close>, not with the weather of London.
\<close>

theorem unmatched_location_counterexample:
  "routeQuery ''weather in Atlantis'' = Weather
   \<and> weatherLocation ''weather in Atlantis'' = ''Atlantis''
   \<and> geocode online ''Atlantis'' = Resolved None
   \<and> dispatch online ''weather in Atlantis''
       = (''Weather location not found.'', [GeocodeGet ''Atlantis''])
   \<and> dispatch online ''weather in Atlantis'' \<noteq> getWeather online ''London''"
proof -
  have a: "routeQuery ''weather in Atlantis'' = Weather" by code_simp
  have b: "weatherLocation ''weather in Atlantis'' = ''Atlantis''" by code_simp
  have c: "geocode online ''Atlantis'' = Resolved None"
    by (simp add: online_def gazetteer_def)
  have d: "getWeather online ''Atlantis'' = (''Weather location not found.'', [GeocodeGet ''Atlantis''])"
    by (simp add: getWeather_def c)
  have e: "snd (getWeather online ''London'') = [GeocodeGet ''London'', ForecastGet ''51.50853'' ''-0.12574'']"
    by (simp add: getWeather_def online_def gazetteer_def)
  have f: "dispatch online ''weather in Atlantis'' = getWeather online ''Atlantis''"
    by (simp add: dispatch_def a b)
  have "snd (dispatch online ''weather in Atlantis'') \<noteq> snd (getWeather online ''London'')"
    unfolding f d e by simp
  then have "dispatch online ''weather in Atlantis'' \<noteq> getWeather online ''London''" by auto
  with a b c d f show ?thesis by simp
qed


lemma getWeather_no_results:
  "geocode w l = Resolved None \<or> geocode w l = Resolved (Some [])
   \<Longrightarrow> getWeather w l = (''Weather location not found.'', [GeocodeGet l])"
  by (auto simp add: getWeather_def)

text \<open>
  C2, amended. The message \<^verbatim>\<open>weather in Paris\<close> is looked up under \<^verbatim>\<open>Paris\<close>; a weather
  message in which no \<^verbatim>\<open>in \<close> is directly followed by a letter or a white space is looked
  up under \<^verbatim>\<open>London\<close>; and when the geocoder has no result for the extracted location,
  the answer is the text \<^verbatim>\<open>Weather location not found.\<close> after that single lookup.
\<close>

theorem weather_location_selection:
  "dispatch w ''weather in Paris'' = getWeather w ''Paris''
   \<and> (routeQuery m = Weather \<and> locationAfterIn m = None
        \<longrightarrow> dispatch w m = getWeather w ''London'')
   \<and> (routeQuery m' = Weather
        \<and> (geocode w (weatherLocation m') = Resolved None
             \<or> geocode w (weatherLocation m') = Resolved (Some []))
        \<longrightarrow> dispatch w m'
             = (''Weather location not found.'', [GeocodeGet (weatherLocation m')]))"
proof -
  have a: "routeQuery ''weather in Paris'' = Weather" by code_simp
  have b: "weatherLocation ''weather in Paris'' = ''Paris''" by code_simp
  have 1: "dispatch w ''weather in Paris'' = getWeather w ''Paris''"
    by (simp add: dispatch_def a b)
  have 2: "routeQuery m = Weather \<and> locationAfterIn m = None
      \<longrightarrow> dispatch w m = getWeather w ''London''"
    by (simp add: dispatch_def weatherLocation_scan)
  have 3: "routeQuery m' = Weather
        \<and> (geocode w (weatherLocation m') = Resolved None
             \<or> geocode w (weatherLocation m') = Resolved (Some []))
        \<longrightarrow> dispatch w m'
             = (''Weather location not found.'', [GeocodeGet (weatherLocation m')])"
    using getWeather_no_results [of w "weatherLocation m'"] by (auto simp add: dispatch_def)
  from 1 2 3 show ?thesis by blast
qed

theorem weather_location_selection_witness:
  "dispatch online ''weather in Paris'' = getWeather online ''Paris''
   \<and> dispatch online ''weather'' = getWeather online ''London''
   \<and> dispatch online ''weather in Atlantis''
       = (''Weather location not found.'', [GeocodeGet ''Atlantis''])"
proof -
  have a: "routeQuery ''weather'' = Weather" by code_simp
  have b: "locationAfterIn ''weather'' = None" by code_simp
  have c: "routeQuery ''weather in Atlantis'' = Weather" by code_simp
  have d: "weatherLocation ''weather in Atlantis'' = ''Atlantis''" by code_simp
  have e: "geocode online ''Atlantis'' = Resolved None"
    by (simp add: online_def gazetteer_def)
  show ?thesis
    using weather_location_selection [of online "''weather''" "''weather in Atlantis''"]
    by (simp add: a b c d e)
qed

text \<open>
  C10, as the claim states it, fails when the first \<^verbatim>\<open>in \<close> is not followed by a letter
  or a white space: in \<^verbatim>\<open>weather in 5 in Paris\<close> the run after the first \<^verbatim>\<open>in \<close> is
  empty, yet the pattern matches at the second one and the lookup is for \<^verbatim>\<open>Paris\<close>.
  The run is one of letters and any white space: a tab after \<^verbatim>\<open>Paris\<close> is part of it.
\<close>

theorem first_in_counterexample:
  "routeQuery ''weather in 5 in Paris'' = Weather
   \<and> afterFirstIn ''weather in 5 in Paris'' = Some ''5 in Paris''
   \<and> takeWhile isLetterOrSpace ''5 in Paris'' = []
   \<and> weatherLocation ''weather in 5 in Paris'' = ''Paris''
   \<and> dispatch online ''weather in 5 in Paris'' = getWeather online ''Paris''
   \<and> weatherLocation (''weather in Paris'' @ [char_of (9 :: nat)] @ ''now'')
       = ''Paris'' @ [char_of (9 :: nat)] @ ''now''"
proof -
  have a: "routeQuery ''weather in 5 in Paris'' = Weather" by code_simp
  have b: "afterFirstIn ''weather in 5 in Paris'' = Some ''5 in Paris''" by code_simp
  have c: "takeWhile isLetterOrSpace ''5 in Paris'' = []" by code_simp
  have d: "weatherLocation ''weather in 5 in Paris'' = ''Paris''" by code_simp
  have e: "dispatch online ''weather in 5 in Paris'' = getWeather online ''Paris''"
    by (simp add: dispatch_def a d)
  have f: "weatherLocation (''weather in Paris'' @ [char_of (9 :: nat)] @ ''now'')
       = ''Paris'' @ [char_of (9 :: nat)] @ ''now''"
    by code_simp
  from a b c d e f show ?thesis by blast
qed

text \<open>
  C10, amended. For every message classified as weather, the location sent to the
  geocoder is the longest run of ASCII letters and white space after the first lower-case
  \<^verbatim>\<open>in \<close> of the original message that such a character follows directly, and
  \<^verbatim>\<open>London\<close> when there is none. So \<^verbatim>\<open>WEATHER IN PARIS\<close> is looked up under
  \<^verbatim>\<open>London\<close>, and \<^verbatim>\<open>weather in Paris today\<close> under \<^verbatim>\<open>Paris today\<close>.
\<close>

theorem location_from_original_message:
  "(routeQuery m = Weather \<longrightarrow>
      dispatch w m
        = getWeather w (case locationAfterIn m of Some run \<Rightarrow> run | None \<Rightarrow> ''London'')
      \<and> hd (snd (dispatch w m))
        = GeocodeGet (case locationAfterIn m of Some run \<Rightarrow> run | None \<Rightarrow> ''London''))
   \<and> routeQuery ''WEATHER IN PARIS'' = Weather
   \<and> locationAfterIn ''WEATHER IN PARIS'' = None
   \<and> routeQuery ''weather in Paris today'' = Weather
   \<and> locationAfterIn ''weather in Paris today'' = Some ''Paris today''"
proof -
  have hd: "hd (snd (getWeather w l)) = GeocodeGet l" for l
    by (simp add: getWeather_def split: outcome.splits option.splits list.splits)
  have 1: "routeQuery m = Weather \<longrightarrow>
      dispatch w m
        = getWeather w (case locationAfterIn m of Some run \<Rightarrow> run | None \<Rightarrow> ''London'')
      \<and> hd (snd (dispatch w m))
        = GeocodeGet (case locationAfterIn m of Some run \<Rightarrow> run | None \<Rightarrow> ''London'')"
    by (simp add: dispatch_def weatherLocation_scan hd)
  have 2: "routeQuery ''WEATHER IN PARIS'' = Weather" by code_simp
  have 3: "locationAfterIn ''WEATHER IN PARIS'' = None" by code_simp
  have 4: "routeQuery ''weather in Paris today'' = Weather" by code_simp
  have 5: "locationAfterIn ''weather in Paris today'' = Some ''Paris today''" by code_simp
  from 1 2 3 4 5 show ?thesis by blast
qed

theorem location_from_original_message_witness:
  "dispatch online ''WEATHER IN PARIS'' = getWeather online ''London''
   \<and> hd (snd (dispatch online ''WEATHER IN PARIS'')) = GeocodeGet ''London''"
proof -
  have r: "routeQuery ''WEATHER IN PARIS'' = Weather" by code_simp
  have l: "locationAfterIn ''WEATHER IN PARIS'' = None" by code_simp
  from location_from_original_message [of "''WEATHER IN PARIS''" online]
  have "routeQuery ''WEATHER IN PARIS'' = Weather \<longrightarrow>
      dispatch online ''WEATHER IN PARIS''
        = getWeather online
            (case locationAfterIn ''WEATHER IN PARIS'' of Some run \<Rightarrow> run | None \<Rightarrow> ''London'')
      \<and> hd (snd (dispatch online ''WEATHER IN PARIS''))
        = GeocodeGet
            (case locationAfterIn ''WEATHER IN PARIS'' of Some run \<Rightarrow> run | None \<Rightarrow> ''London'')"
    by (rule conjunct1)
  then show ?thesis unfolding r l option.case by blast
qed

section \<open>The general resolver\<close>

text \<open>
  C3. When the search request fails, \<^verbatim>\<open>searchDuckDuckGo\<close> returns \<^verbatim>\<open>Search unavailable.\<close>,
  which the general case does not replace: the reply to \<^verbatim>\<open>hello there\<close> is that text and
  not the acknowledgment that echoes the message.
\<close>

theorem search_failure_not_acknowledged:
  "routeQuery ''hello there'' = General
   \<and> duckduckgo offline ''hello there'' = Rejected
   \<and> dispatch offline ''hello there'' = (''Search unavailable.'', [DuckDuckGoGet ''hello there''])
   \<and> chatHandler offline \<lparr>userId = None, message = Some ''hello there''\<rparr>
       = (Json200 ''Search unavailable.'' (Some General), [DuckDuckGoGet ''hello there''])"
proof -
  have a: "routeQuery ''hello there'' = General" by code_simp
  have b: "duckduckgo offline ''hello there'' = Rejected" by (simp add: offline_def)
  have c: "searchDuckDuckGo offline ''hello there''
      = (''Search unavailable.'', [DuckDuckGoGet ''hello there''])"
    by (simp add: searchDuckDuckGo_def b)
  have d: "dispatch offline ''hello there''
      = (''Search unavailable.'', [DuckDuckGoGet ''hello there''])"
    by (simp add: dispatch_def a c)
  have e: "readyState offline = 0" by (simp add: offline_def)
  have "chatHandler offline \<lparr>userId = None, message = Some ''hello there''\<rparr>
       = (Json200 ''Search unavailable.'' (Some General), [DuckDuckGoGet ''hello there''])"
    by (simp add: chatHandler_def d a persist_def e)
  with a b d show ?thesis by simp
qed

text \<open>
  A search that finds nothing is acknowledged, and the general resolver never answers
  with the empty text.
\<close>

lemma general_acknowledges_empty:
  "routeQuery m = General \<Longrightarrow> duckduckgo w m = Resolved ([], [])
   \<Longrightarrow> dispatch w m = (acknowledgment m, [DuckDuckGoGet m])"
  by (simp add: dispatch_def searchDuckDuckGo_def)

lemma general_never_empty:
  "routeQuery m = General \<Longrightarrow> fst (dispatch w m) \<noteq> []"
  by (auto simp add: dispatch_def searchDuckDuckGo_def acknowledgment_def
      split: outcome.splits prod.splits)

section \<open>One resolver per query\<close>

lemma getWeather_owner: "e \<in> set (snd (getWeather w l)) \<Longrightarrow> resolverOf e = Some Weather"
  by (auto simp add: getWeather_def split: outcome.splits option.splits list.splits)

lemma mathResolver_owner: "e \<in> set (snd (mathResolver w m)) \<Longrightarrow> resolverOf e = Some Math"
  by (auto simp add: mathResolver_def split: outcome.splits option.splits)

lemma searchWikipedia_owner:
  "e \<in> set (snd (searchWikipedia w t)) \<Longrightarrow> resolverOf e = Some Knowledge"
  by (auto simp add: searchWikipedia_def split: outcome.splits)

lemma searchDuckDuckGo_owner:
  "e \<in> set (snd (searchDuckDuckGo w q)) \<Longrightarrow> resolverOf e = Some General"
  by (auto simp add: searchDuckDuckGo_def split: outcome.splits prod.splits)

lemma dispatch_owner:
  "e \<in> set (snd (dispatch w m)) \<Longrightarrow> resolverOf e = Some (routeQuery m)"
proof (cases "routeQuery m")
  case Weather
  then show "e \<in> set (snd (dispatch w m)) \<Longrightarrow> ?thesis"
    by (simp add: dispatch_def getWeather_owner)
next
  case Time
  then show "e \<in> set (snd (dispatch w m)) \<Longrightarrow> ?thesis"
    by (simp add: dispatch_def)
next
  case Math
  then show "e \<in> set (snd (dispatch w m)) \<Longrightarrow> ?thesis"
    by (simp add: dispatch_def mathResolver_owner)
next
  case Knowledge
  then show "e \<in> set (snd (dispatch w m)) \<Longrightarrow> ?thesis"
    by (simp add: dispatch_def searchWikipedia_owner)
next
  case General
  assume e: "e \<in> set (snd (dispatch w m))"
  obtain r evs where s: "searchDuckDuckGo w m = (r, evs)" by (cases "searchDuckDuckGo w m")
  with e General have "e \<in> set evs" by (simp add: dispatch_def split: if_splits)
  then have "e \<in> set (snd (searchDuckDuckGo w m))" by (simp add: s)
  then show ?thesis using General by (simp add: searchDuckDuckGo_owner)
qed

lemma dispatch_candidate: "fst (dispatch w m) \<in> set (candidateAnswers w m)"
proof (cases "routeQuery m")
  case General
  obtain r evs where s: "searchDuckDuckGo w m = (r, evs)" by (cases "searchDuckDuckGo w m")
  with General show ?thesis by (simp add: dispatch_def candidateAnswers_def)
qed (simp_all add: dispatch_def candidateAnswers_def)

text \<open>
  C9. For every request with a non-empty message that the rule-routed handler answers
  with status 200, the answer is one of the texts a single resolver or the terminal
  fallback offers for the message, and every call made to the outside belongs to the one
  resolver the classifier selected, but for the final write of the chat record.
\<close>

theorem single_source:
  assumes "message b = Some m" "m \<noteq> []" "chatHandler w b = (Json200 text qt, evs)"
  shows "text \<in> set (candidateAnswers w m)
         \<and> (\<forall>e\<in>set evs. resolverOf e = Some (routeQuery m) \<or> (\<exists>c. e = ChatSave c))"
proof -
  obtain response devs where d: "dispatch w m = (response, devs)" by (cases "dispatch w m")
  from assms d have p: "persist w (Chat (userOf b) m response)
      (Json200 response (Some (routeQuery m))) devs = (Json200 text qt, evs)"
    by (simp add: chatHandler_def)
  then have t: "text = response"
    by (auto simp add: persist_def split: if_splits option.splits)
  from p have "evs = devs \<or> (\<exists>c. evs = devs @ [ChatSave c])"
    by (auto simp add: persist_def split: if_splits option.splits)
  moreover have "\<forall>e\<in>set devs. resolverOf e = Some (routeQuery m)"
    using dispatch_owner [of _ w m] d by simp
  ultimately have "\<forall>e\<in>set evs. resolverOf e = Some (routeQuery m) \<or> (\<exists>c. e = ChatSave c)"
    by auto
  moreover have "text \<in> set (candidateAnswers w m)"
    using dispatch_candidate [of w m] d t by simp
  ultimately show ?thesis by simp
qed

theorem single_source_witness:
  "chatHandler online \<lparr>userId = None, message = Some ''weather in Paris''\<rparr>
     = (Json200 (fst (getWeather online ''Paris'')) (Some Weather),
        [GeocodeGet ''Paris'', ForecastGet ''48.85341'' ''2.3488''])
   \<and> fst (getWeather online ''Paris'') \<in> set (candidateAnswers online ''weather in Paris'')
   \<and> list_all (\<lambda>e. resolverOf e = Some Weather)
        [GeocodeGet ''Paris'', ForecastGet ''48.85341'' ''2.3488'']"
proof -
  have r: "routeQuery ''weather in Paris'' = Weather" by code_simp
  have l: "weatherLocation ''weather in Paris'' = ''Paris''" by code_simp
  have g: "snd (getWeather online ''Paris'')
      = [GeocodeGet ''Paris'', ForecastGet ''48.85341'' ''2.3488'']"
    by (simp add: getWeather_def online_def gazetteer_def)
  have rs: "readyState online = 0" by (simp add: online_def offline_def)
  have d: "dispatch online ''weather in Paris'' = getWeather online ''Paris''"
    by (simp add: dispatch_def r l)
  have h: "chatHandler online \<lparr>userId = None, message = Some ''weather in Paris''\<rparr>
     = (Json200 (fst (getWeather online ''Paris'')) (Some Weather),
        [GeocodeGet ''Paris'', ForecastGet ''48.85341'' ''2.3488''])"
    by (simp add: chatHandler_def d r persist_def rs g [symmetric] split: prod.splits)
  from single_source [OF _ _ h, of "''weather in Paris''"] r
  show ?thesis using h by (simp add: list_all_iff)
qed

section \<open>Persistence\<close>

text \<open>
  C4, as the claim states it, fails: \<^verbatim>\<open>chat.save\<close> is awaited inside the handler's
  \<^verbatim>\<open>try\<close>, so a write that throws replaces the reply. The same message with the same
  computed answer is answered with status 200 when nothing is written and with status 500
  when the database is connected and the write fails.
\<close>

theorem persistence_failure_counterexample:
  "dispatch failingStore ''what time is it'' = (''Current time: 1/1/2026, 12:00:00 PM'', [ClockRead])
   \<and> dispatch online ''what time is it'' = (''Current time: 1/1/2026, 12:00:00 PM'', [ClockRead])
   \<and> fst (chatHandler online \<lparr>userId = None, message = Some ''what time is it''\<rparr>)
       = Json200 ''Current time: 1/1/2026, 12:00:00 PM'' (Some Time)
   \<and> fst (chatHandler failingStore \<lparr>userId = None, message = Some ''what time is it''\<rparr>)
       = Json500 ''Server error'' ''write failed''"
proof -
  have r: "routeQuery ''what time is it'' = Time" by code_simp
  have a: "dispatch failingStore ''what time is it''
      = (''Current time: 1/1/2026, 12:00:00 PM'', [ClockRead])"
    by (simp add: dispatch_def r failingStore_def online_def offline_def)
  have b: "dispatch online ''what time is it''
      = (''Current time: 1/1/2026, 12:00:00 PM'', [ClockRead])"
    by (simp add: dispatch_def r online_def offline_def)
  have rs: "readyState online = 0" "readyState failingStore = 1"
    "save failingStore = (\<lambda>c. Some ''write failed'')"
    by (simp_all add: failingStore_def online_def offline_def)
  have c: "fst (chatHandler online \<lparr>userId = None, message = Some ''what time is it''\<rparr>)
       = Json200 ''Current time: 1/1/2026, 12:00:00 PM'' (Some Time)"
    by (simp add: chatHandler_def b r persist_def rs)
  have d: "fst (chatHandler failingStore \<lparr>userId = None, message = Some ''what time is it''\<rparr>)
       = Json500 ''Server error'' ''write failed''"
    by (simp add: chatHandler_def a r persist_def rs)
  from a b c d show ?thesis by blast
qed

text \<open>
  C4, amended. For a request with a non-empty message, in both variants: when the
  database is not connected nothing is written, the calls made are those of the answer
  alone, and the computed answer is returned; when it is connected the chat record is
  written once, after the answer; if that write succeeds the computed answer is returned,
  and if it throws, the reply is status 500 with \<^verbatim>\<open>Server error\<close> and the message of the
  error, and the computed answer is not returned.
\<close>

theorem persistence_outcome:
  assumes "message b = Some m" "m \<noteq> []"
  shows "chatHandler w b =
           (if readyState w = 1 then
              (case save w (Chat (userOf b) m (fst (dispatch w m))) of
                 None \<Rightarrow> Json200 (fst (dispatch w m)) (Some (routeQuery m))
               | Some err \<Rightarrow> Json500 ''Server error'' err,
               snd (dispatch w m) @ [ChatSave (Chat (userOf b) m (fst (dispatch w m)))])
            else (Json200 (fst (dispatch w m)) (Some (routeQuery m)), snd (dispatch w m)))
         \<and> chatHandlerOpenAI w b =
           (if readyState w = 1 then
              (case save w (Chat (userOf b) m (fst (chatWithOpenAI w m))) of
                 None \<Rightarrow> Json200 (fst (chatWithOpenAI w m)) None
               | Some err \<Rightarrow> Json500 ''Server error'' err,
               [CompletionCreate (chatRequest m),
                ChatSave (Chat (userOf b) m (fst (chatWithOpenAI w m)))])
            else (Json200 (fst (chatWithOpenAI w m)) None, [CompletionCreate (chatRequest m)]))
         \<and> (\<forall>c. ChatSave c \<notin> set (snd (dispatch w m)))"
proof -
  obtain r evs where d: "dispatch w m = (r, evs)" by (cases "dispatch w m")
  obtain r' evs' where c: "chatWithOpenAI w m = (r', evs')" by (cases "chatWithOpenAI w m")
  have evs': "evs' = [CompletionCreate (chatRequest m)]"
    using c by (auto simp add: chatWithOpenAI_def split: completion.splits)
  have 1: "chatHandler w b =
           (if readyState w = 1 then
              (case save w (Chat (userOf b) m r) of
                 None \<Rightarrow> Json200 r (Some (routeQuery m))
               | Some err \<Rightarrow> Json500 ''Server error'' err,
               evs @ [ChatSave (Chat (userOf b) m r)])
            else (Json200 r (Some (routeQuery m)), evs))"
    using assms by (simp add: chatHandler_def persist_def d split: option.splits)
  have 2: "chatHandlerOpenAI w b =
           (if readyState w = 1 then
              (case save w (Chat (userOf b) m r') of
                 None \<Rightarrow> Json200 r' None
               | Some err \<Rightarrow> Json500 ''Server error'' err,
               [CompletionCreate (chatRequest m), ChatSave (Chat (userOf b) m r')])
            else (Json200 r' None, [CompletionCreate (chatRequest m)]))"
    using assms by (simp add: chatHandlerOpenAI_def persist_def c evs' split: option.splits)
  have 3: "\<forall>c. ChatSave c \<notin> set (snd (dispatch w m))"
  proof (intro allI notI)
    fix c
    assume "ChatSave c \<in> set (snd (dispatch w m))"
    then have "resolverOf (ChatSave c) = Some (routeQuery m)" by (rule dispatch_owner)
    then show False by simp
  qed
  from 1 2 3 show ?thesis by (simp add: d c split: option.splits)
qed

theorem persistence_outcome_witness:
  "chatHandler offline \<lparr>userId = None, message = Some ''what time is it''\<rparr>
     = (Json200 ''Current time: 1/1/2026, 12:00:00 PM'' (Some Time), [ClockRead])
   \<and> chatHandler failingStore \<lparr>userId = None, message = Some ''what time is it''\<rparr>
     = (Json500 ''Server error'' ''write failed'',
        [ClockRead,
         ChatSave (Chat ''anonymous'' ''what time is it'' ''Current time: 1/1/2026, 12:00:00 PM'')])
   \<and> fst (chatHandlerOpenAI failingStore \<lparr>userId = None, message = Some ''what time is it''\<rparr>)
     = Json500 ''Server error'' ''write failed''"
proof -
  have r: "routeQuery ''what time is it'' = Time" by code_simp
  have a: "dispatch offline ''what time is it''
      = (''Current time: 1/1/2026, 12:00:00 PM'', [ClockRead])"
    "dispatch failingStore ''what time is it''
      = (''Current time: 1/1/2026, 12:00:00 PM'', [ClockRead])"
    by (simp_all add: dispatch_def r failingStore_def online_def offline_def)
  have s: "readyState offline = 0" "readyState failingStore = 1"
    "save failingStore = (\<lambda>c. Some ''write failed'')"
    by (simp_all add: failingStore_def online_def offline_def)
  have u: "userOf \<lparr>userId = None, message = Some ''what time is it''\<rparr> = ''anonymous''"
    by (simp add: userOf_def)
  show ?thesis
    using persistence_outcome [of "\<lparr>userId = None, message = Some ''what time is it''\<rparr>"
        "''what time is it''" offline]
      persistence_outcome [of "\<lparr>userId = None, message = Some ''what time is it''\<rparr>"
        "''what time is it''" failingStore]
    by (simp add: a r s u)
qed

section \<open>The fallback chain of the model-augmented search\<close>

text \<open>
  C8, as the claim states it, fails in its last part: the content of a completion is
  returned unchecked, so when the search finds nothing and the model completes with the
  empty text, \<^verbatim>\<open>searchWithOpenAI\<close> returns the empty text.
\<close>

theorem empty_completion_counterexample:
  "searchWithOpenAI silentModel ''hello''
     = ([], [DuckDuckGoGet ''hello'', CompletionCreate (chatRequest ''hello'')])"
  by (simp add: searchWithOpenAI_def searchDuckDuckGo_def chatWithOpenAI_def silentModel_def
      offline_def)

lemma chatWithOpenAI_events: "snd (chatWithOpenAI w q) = [CompletionCreate (chatRequest q)]"
  by (simp add: chatWithOpenAI_def split: completion.splits)

lemma chatWithOpenAI_nonempty:
  "\<forall>r. create w r \<noteq> Content [] \<Longrightarrow> fst (chatWithOpenAI w q) \<noteq> []"
  by (auto simp add: chatWithOpenAI_def split: completion.splits)


text \<open>
  C8, amended. When the search result is unusable, the model is asked directly, with the
  chat prompt and the query alone, and the answer is the content of that completion, or,
  when that completion fails, the text about the API key for status 401 and the text about
  an error otherwise; when the result is usable and the synthesis over it fails, the model
  is likewise asked directly after the failed synthesis, with the same answer; and the
  answer is not empty provided no completion of the model is empty.
\<close>

theorem model_fallback_chain:
  "(unusable (fst (searchDuckDuckGo w q)) \<longrightarrow>
      searchWithOpenAI w q
        = (case create w (chatRequest q) of
             Content c \<Rightarrow> c
           | Failed status \<Rightarrow>
               if status = Some 401
               then ''OpenAI API key is not configured. Please add OPENAI_API_KEY to environment variables.''
               else ''I encountered an error processing your request. Please try again.'',
           snd (searchDuckDuckGo w q) @ [CompletionCreate (chatRequest q)]))
   \<and> (\<not> unusable (fst (searchDuckDuckGo w q))
        \<and> create w (synthesisRequest q (fst (searchDuckDuckGo w q))) = Failed st \<longrightarrow>
      searchWithOpenAI w q
        = (case create w (chatRequest q) of
             Content c \<Rightarrow> c
           | Failed status \<Rightarrow>
               if status = Some 401
               then ''OpenAI API key is not configured. Please add OPENAI_API_KEY to environment variables.''
               else ''I encountered an error processing your request. Please try again.'',
           snd (searchDuckDuckGo w q)
             @ [CompletionCreate (synthesisRequest q (fst (searchDuckDuckGo w q))),
                CompletionCreate (chatRequest q)]))
   \<and> messages (chatRequest q) = [(''system'', chatSystemPrompt), (''user'', q)]
   \<and> ((\<forall>r. create w r \<noteq> Content []) \<longrightarrow> fst (searchWithOpenAI w q) \<noteq> [])"
proof -
  obtain sr evs where s: "searchDuckDuckGo w q = (sr, evs)" by (cases "searchDuckDuckGo w q")
  define r where "r =
    (case create w (chatRequest q) of
       Content c \<Rightarrow> c
     | Failed status \<Rightarrow>
         if status = Some 401
         then ''OpenAI API key is not configured. Please add OPENAI_API_KEY to environment variables.''
         else ''I encountered an error processing your request. Please try again.'')"
  have c: "chatWithOpenAI w q = (r, [CompletionCreate (chatRequest q)])"
    by (simp add: chatWithOpenAI_def r_def split: completion.splits)
  have 1: "unusable sr \<longrightarrow>
      searchWithOpenAI w q = (r, evs @ [CompletionCreate (chatRequest q)])"
    by (auto simp add: searchWithOpenAI_def s c unusable_def)
  have 2: "\<not> unusable sr \<and> create w (synthesisRequest q sr) = Failed st \<longrightarrow>
      searchWithOpenAI w q
        = (r, evs @ [CompletionCreate (synthesisRequest q sr), CompletionCreate (chatRequest q)])"
    by (auto simp add: searchWithOpenAI_def s c unusable_def)
  have 3: "messages (chatRequest q) = [(''system'', chatSystemPrompt), (''user'', q)]"
    by (simp add: chatRequest_def)
  have 4: "(\<forall>r. create w r \<noteq> Content []) \<longrightarrow> fst (searchWithOpenAI w q) \<noteq> []"
  proof
    assume a: "\<forall>r. create w r \<noteq> Content []"
    then have "r \<noteq> []" using chatWithOpenAI_nonempty [of w q] c by simp
    moreover have "create w (synthesisRequest q sr) \<noteq> Content []" using a by blast
    ultimately show "fst (searchWithOpenAI w q) \<noteq> []"
      by (auto simp add: searchWithOpenAI_def s c split: completion.splits)
  qed
  from 1 2 3 4 show ?thesis unfolding r_def by (simp add: s)
qed

theorem model_fallback_chain_witness:
  "searchWithOpenAI talkingModel ''hello''
     = (''Hello!'', [DuckDuckGoGet ''hello'', CompletionCreate (chatRequest ''hello'')])
   \<and> searchWithOpenAI flakySynthesis ''hello''
     = (''Hello!'',
        [DuckDuckGoGet ''hello'', CompletionCreate (synthesisRequest ''hello'' ''An abstract.''),
         CompletionCreate (chatRequest ''hello'')])
   \<and> fst (searchWithOpenAI talkingModel ''hello'') \<noteq> []"
proof -
  have t: "searchDuckDuckGo talkingModel ''hello'' = (''Search unavailable.'', [DuckDuckGoGet ''hello''])"
    "create talkingModel (chatRequest ''hello'') = Content ''Hello!''"
    "\<forall>r. create talkingModel r \<noteq> Content []"
    by (simp_all add: searchDuckDuckGo_def talkingModel_def offline_def)
  have f: "searchDuckDuckGo flakySynthesis ''hello'' = (''An abstract.'', [DuckDuckGoGet ''hello''])"
    "create flakySynthesis (chatRequest ''hello'') = Content ''Hello!''"
    "create flakySynthesis (synthesisRequest ''hello'' ''An abstract.'') = Failed (Some 500)"
    by (simp_all add: searchDuckDuckGo_def flakySynthesis_def offline_def
        chatRequest_def synthesisRequest_def)
  have u: "unusable ''Search unavailable.''" "\<not> unusable ''An abstract.''"
    by (simp_all add: unusable_def)
  show ?thesis
    using model_fallback_chain [of talkingModel "''hello''"]
      model_fallback_chain [of flakySynthesis "''hello''" "Some 500"]
    by (simp add: t f u)
qed

end
